theory Spec2Isabelle
  imports Main "HOL-Library.Word"
begin

section \<open>Values, errors and the struct module\<close>

text \<open>
  The module \<^verbatim>\<open>assaultcube_server_reader.py\<close> decodes UDP datagrams of the AssaultCube
  extended-ping protocol. A datagram is a Python \<^verbatim>\<open>bytes\<close> object: a list of 8-bit words.
  Every exception the module can raise is a value of \<open>error\<close>, and a function that can
  raise returns \<open>error + 'a\<close> with \<open>Inl\<close> for the exception.
\<close>

type_synonym byte = "8 word"
type_synonym bytes = "byte list"

datatype error =
    StructError          \<comment> \<open>\<^verbatim>\<open>struct.error\<close>: the buffer has not the size the format needs\<close>
  | UnicodeDecodeError   \<comment> \<open>\<^verbatim>\<open>bytes.decode("utf-8")\<close> on an invalid sequence\<close>
  | SocketTimeout        \<comment> \<open>\<^verbatim>\<open>socket.timeout\<close>: no datagram within the 3 seconds\<close>

text \<open>
  Python values are dynamically typed: \<^verbatim>\<open>mastermode\<close> is a tuple at one point and a string
  later, and the dictionaries that are returned mix integers, strings and lists.
\<close>

datatype pyval =
    PInt int
  | PBytes bytes
  | PStr string
  | PTuple "pyval list"
  | PList "pyval list"

type_synonym pydict = "(string \<times> pyval) list"

definition and_then :: "error + 'a \<Rightarrow> ('a \<Rightarrow> error + 'b) \<Rightarrow> error + 'b" where
  "and_then m f = (case m of Inl e \<Rightarrow> Inl e | Inr x \<Rightarrow> f x)"

text \<open>
  The format strings of the module use the codes \<^verbatim>\<open>b\<close> (signed char), \<^verbatim>\<open>B\<close> (unsigned
  char), \<^verbatim>\<open>c\<close> (a bytes object of length one) and \<^verbatim>\<open>H\<close> (unsigned short). They carry
  no byte-order prefix, so \<^verbatim>\<open>struct\<close> works in native mode: native sizes, native alignment
  and the byte order of the host, which is a parameter of the model.
\<close>

datatype byteorder = LittleEndian | BigEndian

datatype fmtchar = Fmt_b | Fmt_B | Fmt_c | Fmt_H

fun fmt_size :: "fmtchar \<Rightarrow> nat" where
  "fmt_size Fmt_b = 1"
| "fmt_size Fmt_B = 1"
| "fmt_size Fmt_c = 1"
| "fmt_size Fmt_H = 2"

definition align :: "nat \<Rightarrow> nat \<Rightarrow> nat" where
  "align off a = ((off + a - 1) div a) * a"

fun calcsize_at :: "nat \<Rightarrow> fmtchar list \<Rightarrow> nat" where
  "calcsize_at off [] = off"
| "calcsize_at off (c # cs) = calcsize_at (align off (fmt_size c) + fmt_size c) cs"

definition calcsize :: "fmtchar list \<Rightarrow> nat" where
  "calcsize fmt = calcsize_at 0 fmt"

fun unpack_item :: "byteorder \<Rightarrow> fmtchar \<Rightarrow> bytes \<Rightarrow> pyval" where
  "unpack_item bo Fmt_b bs = PInt (sint (bs ! 0))"
| "unpack_item bo Fmt_B bs = PInt (uint (bs ! 0))"
| "unpack_item bo Fmt_c bs = PBytes [bs ! 0]"
| "unpack_item LittleEndian Fmt_H bs = PInt (uint (bs ! 0) + 256 * uint (bs ! 1))"
| "unpack_item BigEndian Fmt_H bs = PInt (256 * uint (bs ! 0) + uint (bs ! 1))"

fun unpack_at :: "byteorder \<Rightarrow> nat \<Rightarrow> fmtchar list \<Rightarrow> bytes \<Rightarrow> pyval list" where
  "unpack_at bo off [] buf = []"
| "unpack_at bo off (c # cs) buf =
     (let start = align off (fmt_size c) in
      unpack_item bo c (take (fmt_size c) (drop start buf))
        # unpack_at bo (start + fmt_size c) cs buf)"

text \<open>
  \<^verbatim>\<open>struct.unpack(fmt, buffer)\<close> raises \<^verbatim>\<open>struct.error\<close> unless the buffer has exactly
  \<^verbatim>\<open>calcsize(fmt)\<close> bytes; the items are read only after that check.
\<close>

definition struct_unpack :: "byteorder \<Rightarrow> fmtchar list \<Rightarrow> bytes \<Rightarrow> error + pyval list" where
  "struct_unpack bo fmt buf =
     (if length buf \<noteq> calcsize fmt then Inl StructError
      else Inr (unpack_at bo 0 fmt buf))"

section \<open>The primitive decoders\<close>

text \<open>
  \<^verbatim>\<open>size = struct.calcsize(fmt)\<close>
  \<^verbatim>\<open>return struct.unpack(fmt, data[:size]), data[size:], data[:size]\<close>
  A slice never raises: \<^verbatim>\<open>data[:size]\<close> is \<open>take size data\<close>, shorter than \<open>size\<close> when
  the data is.
\<close>

definition unpack_helper ::
  "byteorder \<Rightarrow> fmtchar list \<Rightarrow> bytes \<Rightarrow> error + (pyval list \<times> bytes \<times> bytes)" where
  "unpack_helper bo fmt data =
     (let size = calcsize fmt in
      and_then (struct_unpack bo fmt (take size data))
        (\<lambda>t. Inr (t, drop size data, take size data)))"

definition getint :: "byteorder \<Rightarrow> bytes \<Rightarrow> error + (pyval \<times> bytes)" where
  "getint bo data =
     and_then (unpack_helper bo [Fmt_b] data) (\<lambda>(my_int, data, _).
       if my_int ! 0 = PInt (- 128)
       then and_then (unpack_helper bo [Fmt_H] data) (\<lambda>(my_int, data, _).
              Inr (my_int ! 0, data))
       else Inr (my_int ! 0, data))"

definition getchar :: "byteorder \<Rightarrow> bytes \<Rightarrow> error + (pyval \<times> bytes)" where
  "getchar bo data =
     and_then (unpack_helper bo [Fmt_c] data) (\<lambda>(my_char, data, _).
       Inr (my_char ! 0, data))"

text \<open>
  \<^verbatim>\<open>char.decode("utf-8")\<close> where \<^verbatim>\<open>char\<close> is a bytes object of length one: a byte below
  \<^verbatim>\<open>0x80\<close> is the character of that code point, and no single byte from \<^verbatim>\<open>0x80\<close> on is a
  complete UTF-8 sequence. \<^verbatim>\<open>getstring\<close> applies it to the result of \<^verbatim>\<open>getchar\<close> only,
  which is always one byte; the last equation is never reached from this module.
\<close>

fun decode_utf8 :: "pyval \<Rightarrow> error + string" where
  "decode_utf8 (PBytes [b]) =
     (if b < 0x80 then Inr [char_of (unat b)] else Inl UnicodeDecodeError)"
| "decode_utf8 (PBytes []) = Inr []"
| "decode_utf8 _ = Inl UnicodeDecodeError"

text \<open>
  The loop of \<^verbatim>\<open>getstring\<close>, with the string built so far and the data left as its state.
  Each round takes one byte off the data, so the loop ends.
\<close>

function getstring_loop :: "byteorder \<Rightarrow> string \<Rightarrow> bytes \<Rightarrow> error + (string \<times> bytes)" where
  "getstring_loop bo my_string data =
     (if length data = 0 then Inr (my_string, data)
      else case getchar bo data of
             Inl e \<Rightarrow> Inl e
           | Inr (char, data') \<Rightarrow>
               if char = PBytes [0] then Inr (my_string, data')
               else case decode_utf8 char of
                      Inl e \<Rightarrow> Inl e
                    | Inr s \<Rightarrow> getstring_loop bo (my_string @ s) data')"
  by pat_completeness auto
termination
  by (relation "measure (\<lambda>(bo, my_string, data). length data)")
     (auto simp: getchar_def unpack_helper_def struct_unpack_def calcsize_def align_def
        and_then_def split: if_splits)

definition getstring :: "byteorder \<Rightarrow> bytes \<Rightarrow> error + (string \<times> bytes)" where
  "getstring bo data = getstring_loop bo [] data"

text \<open>
  \<^verbatim>\<open>str(n)\<close> for an integer and \<^verbatim>\<open>sep.join(xs)\<close>, as the ip string needs them.
\<close>

definition digit_char :: "nat \<Rightarrow> char" where
  "digit_char d = char_of (48 + d)"

fun str_nat :: "nat \<Rightarrow> string" where
  "str_nat n = (if n < 10 then [digit_char n] else str_nat (n div 10) @ [digit_char (n mod 10)])"

declare str_nat.simps [simp del]

definition str_int :: "int \<Rightarrow> string" where
  "str_int i = (if i < 0 then CHR ''-'' # str_nat (nat (- i)) else str_nat (nat i))"

text \<open>Only integers are converted in this module.\<close>

fun py_str :: "pyval \<Rightarrow> string" where
  "py_str (PInt i) = str_int i"
| "py_str (PStr s) = s"
| "py_str _ = undefined"

fun join :: "string \<Rightarrow> string list \<Rightarrow> string" where
  "join sep [] = []"
| "join sep [x] = x"
| "join sep (x # y # ys) = x @ sep @ join sep (y # ys)"

section \<open>The transport\<close>

text \<open>
  The socket is outside the decoder. What it delivers is the list of the datagrams still
  to come: \<^verbatim>\<open>recv(bufsize)\<close> takes the next one, cut to \<open>bufsize\<close> bytes as UDP does, and
  raises \<^verbatim>\<open>socket.timeout\<close> when there is none.
\<close>

fun recv :: "nat \<Rightarrow> bytes list \<Rightarrow> error + (bytes \<times> bytes list)" where
  "recv bufsize [] = Inl SocketTimeout"
| "recv bufsize (d # ds) = Inr (take bufsize d, ds)"

section \<open>Server info and name list\<close>

text \<open>
  Lines 82 to 92 of the source: the two mode bytes, the escape, and the table. The variable
  \<^verbatim>\<open>mastermode\<close> holds the tuple first and then, where the table or the escape applies,
  a string; a pair outside the table stays the tuple.
\<close>

definition resolve_mastermode :: "byteorder \<Rightarrow> bytes \<Rightarrow> error + (pyval \<times> bytes)" where
  "resolve_mastermode bo data =
     and_then (unpack_helper bo [Fmt_b, Fmt_b] data) (\<lambda>(mastermode, data, _).
     and_then (if mastermode ! 0 = PInt (- 128)
               then and_then (unpack_helper bo [Fmt_b, Fmt_b] data) (\<lambda>(mastermode, data, _).
                      Inr (PStr ''match'', data))
               else Inr (PTuple mastermode, data)) (\<lambda>(mastermode, data).
       Inr (if mastermode \<in> set [PTuple [PInt 0, PInt 1], PTuple [PInt 1, PInt 1]]
              then PStr ''open''
            else if mastermode \<in> set [PTuple [PInt 64, PInt 1], PTuple [PInt 65, PInt 1]]
              then PStr ''private''
            else mastermode,
            data)))"

text \<open>
  \<^verbatim>\<open>while data != b"\x00":\<close>
  \<^verbatim>\<open>    player, data = getstring(data)\<close>
  \<^verbatim>\<open>    playerlist.append(player)\<close>
  Nothing bounds this loop, so it is a partial function: \<open>None\<close> is the loop that never
  returns, \<open>Some (Inl e)\<close> the exception that leaves it.
\<close>

partial_function (option) namelist_loop ::
  "byteorder \<Rightarrow> bytes \<Rightarrow> pyval list \<Rightarrow> (error + pyval list) option" where
  "namelist_loop bo data playerlist =
     (if data \<noteq> [0] then
        (case getstring bo data of
           Inl e \<Rightarrow> Some (Inl e)
         | Inr (player, data') \<Rightarrow> namelist_loop bo data' (playerlist @ [PStr player]))
      else Some (Inr playerlist))"

definition get_server_info_and_namelist ::
  "byteorder \<Rightarrow> bytes list \<Rightarrow> (error + pydict) option" where
  "get_server_info_and_namelist bo incoming =
     (case
        and_then (recv 4096 incoming) (\<lambda>(data, _).
        and_then (unpack_helper bo [Fmt_b, Fmt_b] data) (\<lambda>(_, data, _).
        and_then (unpack_helper bo [Fmt_b, Fmt_b, Fmt_b] data) (\<lambda>(_, data, _).
        and_then (getint bo data) (\<lambda>(gamemode, data).
        and_then (getint bo data) (\<lambda>(nb_connected_clients, data).
        and_then (getint bo data) (\<lambda>(minutes_remaining, data).
        and_then (getstring bo data) (\<lambda>(server_map, data).
        and_then (getstring bo data) (\<lambda>(server_description, data).
        and_then (getint bo data) (\<lambda>(max_client, data).
        and_then (resolve_mastermode bo data) (\<lambda>(mastermode, data).
          Inr ([(''gamemode'', gamemode),
                (''mastermode'', mastermode),
                (''nb_connected_clients'', nb_connected_clients),
                (''minutes_remaining'', minutes_remaining),
                (''server_map'', PStr server_map),
                (''server_description'', PStr server_description),
                (''max_client'', max_client)], data)))))))))))
      of
        Inl e \<Rightarrow> Some (Inl e)
      | Inr (fields, data) \<Rightarrow>
          (case namelist_loop bo data [] of
             None \<Rightarrow> None
           | Some (Inl e) \<Rightarrow> Some (Inl e)
           | Some (Inr playerlist) \<Rightarrow>
               Some (Inr (fields @ [(''playerlist'', PList playerlist)]))))"

section \<open>Player statistics\<close>

text \<open>
  \<^verbatim>\<open>read_player_data\<close> returns the empty dictionary for a datagram of fewer than 20 bytes.
  Otherwise it decodes the fields in order and returns the dictionary of the source's
  \<^verbatim>\<open>return\<close> statement, which has sixteen keys: \<^verbatim>\<open>shotdamage\<close> is decoded and is not
  among them. The two debug \<^verbatim>\<open>print\<close> calls write to standard output only.
\<close>

definition read_player_data :: "byteorder \<Rightarrow> bytes \<Rightarrow> error + pydict" where
  "read_player_data bo player_data =
     (if length player_data < 20 then Inr []
      else
        and_then (unpack_helper bo [Fmt_b, Fmt_b] player_data) (\<lambda>(_, player_data, _).
        and_then (unpack_helper bo [Fmt_b, Fmt_b, Fmt_b] player_data) (\<lambda>(_, player_data, _).
        and_then (unpack_helper bo [Fmt_b, Fmt_b] player_data) (\<lambda>(_, player_data, _).
        and_then (getint bo player_data) (\<lambda>(client_number, player_data).
        and_then (getint bo player_data) (\<lambda>(ping, player_data).
        and_then (getstring bo player_data) (\<lambda>(name, player_data).
        and_then (getstring bo player_data) (\<lambda>(team, player_data).
        and_then (getint bo player_data) (\<lambda>(frags, player_data).
        and_then (getint bo player_data) (\<lambda>(flags, player_data).
        and_then (getint bo player_data) (\<lambda>(deaths, player_data).
        and_then (getint bo player_data) (\<lambda>(teamkills, player_data).
        and_then (getint bo player_data) (\<lambda>(accuracy, player_data).
        and_then (getint bo player_data) (\<lambda>(health, player_data).
        and_then (getint bo player_data) (\<lambda>(armour, player_data).
        and_then (getint bo player_data) (\<lambda>(gun, player_data).
        and_then (getint bo player_data) (\<lambda>(role, player_data).
        and_then (getint bo player_data) (\<lambda>(state, player_data).
        and_then (unpack_helper bo [Fmt_B, Fmt_B, Fmt_B] player_data) (\<lambda>(ip_tuple, player_data, _).
        let ip = join ''.'' (map py_str ip_tuple) @ ''.0'' in
        and_then (getint bo player_data) (\<lambda>(damage, player_data).
        and_then (getint bo player_data) (\<lambda>(shotdamage, player_data).
          Inr [(''client_number'', client_number),
               (''ping'', ping),
               (''name'', PStr name),
               (''team'', PStr team),
               (''frags'', frags),
               (''flags'', flags),
               (''deaths'', deaths),
               (''teamkills'', teamkills),
               (''accuracy'', accuracy),
               (''health'', health),
               (''armour'', armour),
               (''gun'', gun),
               (''role'', role),
               (''state'', state),
               (''ip'', PStr ip),
               (''damage'', damage)])))))))))))))))))))))"

text \<open>
  \<^verbatim>\<open>while data_client_number:\<close> reads client numbers until the header datagram is used up.
\<close>

function client_number_loop :: "byteorder \<Rightarrow> bytes \<Rightarrow> pyval list \<Rightarrow> error + pyval list" where
  "client_number_loop bo data_client_number client_number_list =
     (if data_client_number \<noteq> [] then
        (case getint bo data_client_number of
           Inl e \<Rightarrow> Inl e
         | Inr (client_number, data') \<Rightarrow>
             client_number_loop bo data' (client_number_list @ [client_number]))
      else Inr client_number_list)"
  by pat_completeness auto
termination
  by (relation "measure (\<lambda>(bo, data, l). length data)")
     (auto simp: getint_def unpack_helper_def struct_unpack_def calcsize_def align_def
        and_then_def split: if_splits sum.splits)

text \<open>
  \<^verbatim>\<open>"name" in dict_player_data and dict_player_data["name"] != ""\<close>
\<close>

definition has_name :: "pydict \<Rightarrow> bool" where
  "has_name dict_player_data \<longleftrightarrow>
     map_of dict_player_data ''name'' \<noteq> None \<and>
     map_of dict_player_data ''name'' \<noteq> Some (PStr [])"

text \<open>
  The \<^verbatim>\<open>for\<close> loop over the client numbers: one \<^verbatim>\<open>recv\<close> and one decoded record for
  each, whatever the number is. No exception is caught.
\<close>

fun collect_records ::
  "byteorder \<Rightarrow> pyval list \<Rightarrow> bytes list \<Rightarrow> pydict list \<Rightarrow> error + pydict list" where
  "collect_records bo [] incoming players_stats = Inr players_stats"
| "collect_records bo (client_number # rest) incoming players_stats =
     and_then (recv 65535 incoming) (\<lambda>(player_data, incoming).
     and_then (read_player_data bo player_data) (\<lambda>dict_player_data.
       collect_records bo rest incoming
         (if has_name dict_player_data then players_stats @ [dict_player_data]
          else players_stats)))"

text \<open>
  The header datagram, lines 190 to 201 of the source: the three fixed parts are skipped
  (the debug \<^verbatim>\<open>print\<close> for a subtype other than -10 changes nothing), then the client
  numbers are read.
\<close>

definition read_client_number_list :: "byteorder \<Rightarrow> bytes \<Rightarrow> error + pyval list" where
  "read_client_number_list bo data_client_number =
     and_then (unpack_helper bo [Fmt_b, Fmt_b] data_client_number) (\<lambda>(_, data_client_number, _).
     and_then (unpack_helper bo [Fmt_b, Fmt_b, Fmt_b] data_client_number) (\<lambda>(_, data_client_number, _).
     and_then (unpack_helper bo [Fmt_b, Fmt_b] data_client_number)
       (\<lambda>(ext_playerstats_resp_ids, data_client_number, _).
     client_number_loop bo data_client_number [])))"

text \<open>
  \<^verbatim>\<open>get_playerstats\<close> returns \<^verbatim>\<open>players_stats\<close> alone; the list of client numbers only
  says how many datagrams are received.
\<close>

definition get_playerstats :: "byteorder \<Rightarrow> bytes list \<Rightarrow> error + pydict list" where
  "get_playerstats bo incoming =
     and_then (recv 4096 incoming) (\<lambda>(data_client_number, incoming).
     and_then (read_client_number_list bo data_client_number) (\<lambda>client_number_list.
       collect_records bo client_number_list incoming []))"

section \<open>Example datagrams\<close>

text \<open>
  The text that a run of bytes below \<^verbatim>\<open>0x80\<close> decodes to.
\<close>

definition ascii_text :: "bytes \<Rightarrow> string" where
  "ascii_text bs = map (\<lambda>b. char_of (unat b)) bs"

text \<open>
  A name list as the server sends it: every name followed by a zero byte, and one more
  zero byte (the empty string) at the end.
\<close>

definition name_list_bytes :: "bytes list \<Rightarrow> bytes" where
  "name_list_bytes names = concat (map (\<lambda>n. n @ [0]) names) @ [0]"

text \<open>
  A record datagram of 36 bytes: seven header bytes, client number 2, ping 50, name
  \<^verbatim>\<open>Alice\<close>, team \<^verbatim>\<open>CLA\<close>, frags 3, flags 0, deaths 1, teamkills 0, accuracy 40, health
  100, armour 0, gun 5, role 0, state 0, ip octets 10, 0, 0, damage 120 and shot damage 300
  (the escape byte and \<^verbatim>\<open>2C 01\<close>, low byte first as the server writes it).
\<close>

definition alice_record :: bytes where
  "alice_record = [0x00, 0x01, 0xFF, 0xFF, 0x68, 0x00, 0xF5,
     0x02, 0x32, 0x41, 0x6C, 0x69, 0x63, 0x65, 0x00, 0x43, 0x4C, 0x41, 0x00,
     0x03, 0x00, 0x01, 0x00, 0x28, 0x64, 0x00, 0x05, 0x00, 0x00,
     0x0A, 0x00, 0x00, 0x78, 0x80, 0x2C, 0x01]"

definition alice_dict :: pydict where
  "alice_dict = [(''client_number'', PInt 2), (''ping'', PInt 50),
      (''name'', PStr ''Alice''), (''team'', PStr ''CLA''),
      (''frags'', PInt 3), (''flags'', PInt 0), (''deaths'', PInt 1),
      (''teamkills'', PInt 0), (''accuracy'', PInt 40),
      (''health'', PInt 100), (''armour'', PInt 0), (''gun'', PInt 5),
      (''role'', PInt 0), (''state'', PInt 0), (''ip'', PStr ''10.0.0.0''),
      (''damage'', PInt 120)]"

text \<open>
  A record datagram of exactly 20 bytes that breaks off in the escape of an integer, and
  one of 19 bytes.
\<close>

definition truncated_record :: bytes where
  "truncated_record = replicate 19 0 @ [0x80]"

definition short_record :: bytes where
  "short_record = replicate 19 0"

text \<open>Header datagrams of the player statistics that list the clients 2, 5 and 3, 7.\<close>

definition header_2_5 :: bytes where
  "header_2_5 = [0x00, 0x01, 0xFF, 0xFF, 0x68, 0x00, 0xF6, 0x02, 0x05]"

definition header_3_7 :: bytes where
  "header_3_7 = [0x00, 0x01, 0xFF, 0xFF, 0x68, 0x00, 0xF6, 0x03, 0x07]"

text \<open>
  A server info datagram cut after the first player name: game mode 0, one client, ten
  minutes, map \<^verbatim>\<open>a\<close>, description \<^verbatim>\<open>b\<close>, sixteen clients at most, mode pair (0, 1), the
  name \<^verbatim>\<open>A\<close> with its zero byte, and no closing zero byte.
\<close>

definition cut_server_info :: bytes where
  "cut_server_info = [0x01, 0x01, 0xFF, 0x68, 0x00, 0x00, 0x01, 0x0A, 0x61, 0x00, 0x62, 0x00,
     0x10, 0x00, 0x01, 0x41, 0x00]"

section \<open>The decoders' properties\<close>

subsection \<open>Fixed-size reads\<close>

lemma unpack_helper_b_Cons:
  "unpack_helper bo [Fmt_b] (b # rest) = Inr ([PInt (sint b)], rest, [b])"
  by (simp add: unpack_helper_def struct_unpack_def calcsize_def align_def and_then_def)

lemma unpack_helper_b_Nil: "unpack_helper bo [Fmt_b] [] = Inl StructError"
  by (simp add: unpack_helper_def struct_unpack_def calcsize_def align_def and_then_def)

lemma unpack_helper_c_Cons:
  "unpack_helper bo [Fmt_c] (b # rest) = Inr ([PBytes [b]], rest, [b])"
  by (simp add: unpack_helper_def struct_unpack_def calcsize_def align_def and_then_def)

lemma unpack_helper_H:
  "unpack_helper bo [Fmt_H] data =
     (if length data < 2 then Inl StructError
      else Inr ([unpack_item bo Fmt_H (take 2 data)], drop 2 data, take 2 data))"
  by (simp add: unpack_helper_def struct_unpack_def calcsize_def align_def and_then_def
        numeral_2_eq_2)

lemma unpack_helper_bb:
  "unpack_helper bo [Fmt_b, Fmt_b] data =
     (if length data < 2 then Inl StructError
      else Inr ([PInt (sint (data ! 0)), PInt (sint (data ! 1))], drop 2 data, take 2 data))"
  by (auto simp add: unpack_helper_def struct_unpack_def calcsize_def align_def and_then_def
        numeral_2_eq_2 Let_def)

lemma unpack_helper_bbb:
  "unpack_helper bo [Fmt_b, Fmt_b, Fmt_b] data =
     (if length data < 3 then Inl StructError
      else Inr ([PInt (sint (data ! 0)), PInt (sint (data ! 1)), PInt (sint (data ! 2))],
                drop 3 data, take 3 data))"
  by (auto simp add: unpack_helper_def struct_unpack_def calcsize_def align_def and_then_def
        numeral_3_eq_3 numeral_2_eq_2 Let_def)

subsection \<open>Integers and characters\<close>

lemma getint_Nil: "getint bo [] = Inl StructError"
  by (simp add: getint_def unpack_helper_b_Nil and_then_def)

lemma getint_Cons:
  "getint bo (b # rest) =
     (if sint b \<noteq> - 128 then Inr (PInt (sint b), rest)
      else if length rest < 2 then Inl StructError
      else Inr (unpack_item bo Fmt_H (take 2 rest), drop 2 rest))"
  by (simp add: getint_def unpack_helper_b_Cons unpack_helper_H and_then_def)

lemma getchar_Cons: "getchar bo (b # rest) = Inr (PBytes [b], rest)"
  by (simp add: getchar_def unpack_helper_c_Cons and_then_def)

subsection \<open>Strings\<close>

lemma getstring_loop_Nil: "getstring_loop bo s [] = Inr (s, [])"
  by simp

lemma getstring_loop_Cons:
  "getstring_loop bo s (b # rest) =
     (if b = 0 then Inr (s, rest)
      else if b < 0x80 then getstring_loop bo (s @ [char_of (unat b)]) rest
      else Inl UnicodeDecodeError)"
  by (subst getstring_loop.simps) (simp add: getchar_Cons)

declare getstring_loop.simps [simp del]

lemma getstring_loop_terminated:
  "\<forall>b \<in> set pre. b \<noteq> 0 \<and> b < 0x80 \<Longrightarrow>
     getstring_loop bo s (pre @ 0 # rest) = Inr (s @ ascii_text pre, rest)"
  by (induction pre arbitrary: s) (simp_all add: getstring_loop_Cons ascii_text_def)

lemma getstring_loop_exhausted:
  "\<forall>b \<in> set pre. b \<noteq> 0 \<and> b < 0x80 \<Longrightarrow>
     getstring_loop bo s pre = Inr (s @ ascii_text pre, [])"
  by (induction pre arbitrary: s)
     (simp_all add: getstring_loop_Nil getstring_loop_Cons ascii_text_def)

lemma getstring_loop_success_iff:
  "(\<exists>r. getstring_loop bo s data = Inr r) \<longleftrightarrow>
     (\<forall>b \<in> set (takeWhile (\<lambda>b. b \<noteq> 0) data). b < 0x80)"
  by (induction data arbitrary: s)
     (auto simp add: getstring_loop_Nil getstring_loop_Cons)

lemma getstring_loop_error:
  "getstring_loop bo s data = Inl e \<Longrightarrow> e = UnicodeDecodeError"
  by (induction data arbitrary: s)
     (auto simp add: getstring_loop_Nil getstring_loop_Cons split: if_splits)

lemma ascii_text_AB: "ascii_text [0x41, 0x42] = ''AB''"
  by code_simp

text \<open>
  On bytes below \<^verbatim>\<open>0x80\<close> the decoding stops at the first zero byte, which is consumed
  and is not part of the text, and leaves the rest of the buffer; without a zero byte it
  takes the whole buffer.
\<close>

lemma getstring_ascii_text:
  "\<forall>b \<in> set pre. b \<noteq> 0 \<and> b < 0x80 \<Longrightarrow>
     getstring bo (pre @ 0 # rest) = Inr (ascii_text pre, rest) \<and>
     getstring bo pre = Inr (ascii_text pre, [])"
  by (simp add: getstring_def getstring_loop_terminated getstring_loop_exhausted)

lemma getstring_ascii_text_example:
  "getstring LittleEndian [0x41, 0x42, 0x00, 0x43, 0x00] = Inr (''AB'', [0x43, 0x00]) \<and>
   getstring LittleEndian [0x41, 0x42] = Inr (''AB'', [])"
  using getstring_ascii_text [of "[0x41, 0x42]" LittleEndian "[0x43, 0x00]"] ascii_text_AB
  by simp

subsection \<open>The name list loop\<close>

text \<open>
  On a name list that is closed as the server closes it, the loop returns the names in
  their order.
\<close>

lemma namelist_loop_well_formed:
  "\<forall>n \<in> set names. \<forall>b \<in> set n. b \<noteq> 0 \<and> b < 0x80 \<Longrightarrow>
     namelist_loop bo (name_list_bytes names) playerlist =
       Some (Inr (playerlist @ map (\<lambda>n. PStr (ascii_text n)) names))"
proof (induction names arbitrary: playerlist)
  case Nil
  show ?case
    by (subst namelist_loop.simps) (simp add: name_list_bytes_def)
next
  case (Cons n names)
  have n: "\<forall>b \<in> set n. b \<noteq> 0 \<and> b < 0x80" using Cons.prems by simp
  have split: "name_list_bytes (n # names) = n @ 0 # name_list_bytes names"
    by (simp add: name_list_bytes_def)
  have "name_list_bytes names \<noteq> []" by (simp add: name_list_bytes_def)
  then have ne: "n @ 0 # name_list_bytes names \<noteq> [0]"
    by (cases n) simp_all
  have gs: "getstring bo (n @ 0 # name_list_bytes names) = Inr (ascii_text n, name_list_bytes names)"
    using n by (simp add: getstring_def getstring_loop_terminated)
  have "namelist_loop bo (name_list_bytes (n # names)) playerlist =
          namelist_loop bo (name_list_bytes names) (playerlist @ [PStr (ascii_text n)])"
    unfolding split by (subst namelist_loop.simps) (simp add: ne gs)
  also have "\<dots> = Some (Inr ((playerlist @ [PStr (ascii_text n)]) @
                       map (\<lambda>n. PStr (ascii_text n)) names))"
    using Cons.prems by (intro Cons.IH) simp
  finally show ?case by simp
qed

text \<open>
  A run of the loop that returns never saw the empty buffer: on the empty buffer
  \<^verbatim>\<open>getstring\<close> returns the empty string and the empty buffer again.
\<close>

lemma namelist_loop_returns_nonempty:
  assumes "namelist_loop bo data playerlist = Some r"
  shows "data \<noteq> []"
proof (rule namelist_loop.raw_induct [where P = "\<lambda>bo data pl r. data \<noteq> []", OF _ assms])
  fix loop :: "byteorder \<Rightarrow> bytes \<Rightarrow> pyval list \<Rightarrow> (error + pyval list) option"
  fix bo data playerlist r
  assume IH: "\<And>bo data playerlist r. loop bo data playerlist = Some r \<Longrightarrow> data \<noteq> []"
  assume step: "(if data \<noteq> [0]
        then case getstring bo data of
               Inl e \<Rightarrow> Some (Inl e)
             | Inr (player, data') \<Rightarrow> loop bo data' (playerlist @ [PStr player])
        else Some (Inr playerlist)) = Some r"
  show "data \<noteq> []"
  proof
    assume "data = []"
    with step have "loop bo [] (playerlist @ [PStr []]) = Some r"
      by (simp add: getstring_def getstring_loop_Nil)
    with IH show False by blast
  qed
qed

lemma namelist_loop_Nil: "namelist_loop bo [] playerlist = None"
  using namelist_loop_returns_nonempty [of bo "[]" playerlist]
  by (cases "namelist_loop bo [] playerlist") auto

subsection \<open>Player records\<close>

lemma and_then_not_empty:
  "(\<And>x. f x \<noteq> Inr []) \<Longrightarrow> and_then m f \<noteq> Inr []"
  by (cases m) (simp_all add: and_then_def)

lemma read_player_data_long:
  "20 \<le> length player_data \<Longrightarrow> read_player_data bo player_data \<noteq> Inr []"
  unfolding read_player_data_def Let_def
  by (simp add: and_then_not_empty split_beta)

lemma read_player_data_keys:
  "read_player_data bo player_data = Inr d \<Longrightarrow>
     d = [] \<or> (\<exists>n. map_of d ''name'' = Some (PStr n))"
  unfolding read_player_data_def Let_def
  by (auto simp add: and_then_def split_beta split: if_splits sum.splits)

text \<open>No dictionary that \<^verbatim>\<open>read_player_data\<close> returns has the key \<^verbatim>\<open>shotdamage\<close>.\<close>

lemma read_player_data_no_shotdamage:
  "read_player_data bo player_data = Inr d \<Longrightarrow> map_of d ''shotdamage'' = None"
  unfolding read_player_data_def Let_def
  by (auto simp add: and_then_def split_beta split: if_splits sum.splits)

lemma read_alice_record: "read_player_data LittleEndian alice_record = Inr alice_dict"
  by code_simp

lemma read_truncated_record: "read_player_data bo truncated_record = Inl StructError"
  by (cases bo; code_simp)

lemma has_name_iff:
  "read_player_data bo player_data = Inr d \<Longrightarrow>
     has_name d \<longleftrightarrow> d \<noteq> [] \<and> map_of d ''name'' \<noteq> Some (PStr [])"
  using read_player_data_keys [of bo player_data d] by (auto simp: has_name_def)

subsection \<open>The roster\<close>

lemma collect_records_completed:
  "collect_records bo ids incoming acc = Inr stats \<Longrightarrow>
     \<exists>dicts. length ids \<le> length incoming \<and>
       map (\<lambda>d. read_player_data bo (take 65535 d)) (take (length ids) incoming) = map Inr dicts \<and>
       stats = acc @ filter has_name dicts"
proof (induction ids arbitrary: incoming acc)
  case Nil
  then show ?case by simp
next
  case (Cons i ids)
  from Cons.prems obtain d ds where inc: "incoming = d # ds"
    by (cases incoming) (simp_all add: and_then_def)
  from Cons.prems inc obtain x where x: "read_player_data bo (take 65535 d) = Inr x"
    by (cases "read_player_data bo (take 65535 d)") (simp_all add: and_then_def)
  from Cons.prems inc x
  have "collect_records bo ids ds (if has_name x then acc @ [x] else acc) = Inr stats"
    by (simp add: and_then_def)
  from Cons.IH [OF this] obtain dicts where
    len: "length ids \<le> length ds" and
    m: "map (\<lambda>d. read_player_data bo (take 65535 d)) (take (length ids) ds) = map Inr dicts" and
    st: "stats = (if has_name x then acc @ [x] else acc) @ filter has_name dicts"
    by blast
  have "length (i # ids) \<le> length incoming \<and>
       map (\<lambda>d. read_player_data bo (take 65535 d)) (take (length (i # ids)) incoming)
         = map Inr (x # dicts) \<and>
       stats = acc @ filter has_name (x # dicts)"
    using len m st inc x by simp
  then show ?case by blast
qed

lemma take_alice_record: "take 65535 alice_record = alice_record"
  by (simp add: alice_record_def)

lemma take_truncated_record: "take 65535 truncated_record = truncated_record"
  by (simp add: truncated_record_def)

lemma take_short_record: "take 65535 short_record = short_record"
  by (simp add: short_record_def)

lemma take_header_2_5: "take 4096 header_2_5 = header_2_5"
  by (simp add: header_2_5_def)

lemma take_header_3_7: "take 4096 header_3_7 = header_3_7"
  by (simp add: header_3_7_def)

lemma read_header_2_5: "read_client_number_list LittleEndian header_2_5 = Inr [PInt 2, PInt 5]"
  by code_simp

lemma read_header_3_7: "read_client_number_list LittleEndian header_3_7 = Inr [PInt 3, PInt 7]"
  by code_simp

lemma read_short_record: "read_player_data bo short_record = Inr []"
  by (simp add: read_player_data_def short_record_def)

lemma has_name_alice_dict: "has_name alice_dict"
  by (simp add: has_name_def alice_dict_def)

lemma has_name_empty: "\<not> has_name []"
  by (simp add: has_name_def)

lemmas roster_eval =
  get_playerstats_def and_then_def take_alice_record take_truncated_record take_short_record
  take_header_2_5 take_header_3_7 read_header_2_5 read_header_3_7 read_short_record
  read_alice_record read_truncated_record has_name_alice_dict has_name_empty

lemma playerstats_2_5:
  "get_playerstats LittleEndian [header_2_5, alice_record, alice_record]
     = Inr [alice_dict, alice_dict]"
  by (simp add: roster_eval)

lemma playerstats_3_7:
  "get_playerstats LittleEndian [header_3_7, alice_record, alice_record]
     = Inr [alice_dict, alice_dict]"
  by (simp add: roster_eval)

lemma playerstats_short:
  "get_playerstats LittleEndian [header_2_5, short_record, alice_record] = Inr [alice_dict]"
  by (simp add: roster_eval)

lemma playerstats_truncated:
  "get_playerstats LittleEndian [header_2_5, alice_record, truncated_record] = Inl StructError"
  by (simp add: roster_eval)


section \<open>The claims\<close>

text \<open>
  C1. On a buffer that has a first byte: when that byte, read as a signed char, is not
  -128, \<^verbatim>\<open>getint\<close> returns it and the data after that one byte; when it is -128 and two
  more bytes follow, \<^verbatim>\<open>getint\<close> returns those two bytes read as an unsigned 16-bit integer
  (in the byte order of the host) and the data after the three bytes. An escape byte that
  is not followed by two bytes is a \<^verbatim>\<open>struct.error\<close>.
\<close>

theorem getint_sentinel_escape:
  "data \<noteq> [] \<Longrightarrow>
     (sint (hd data) \<noteq> - 128 \<longrightarrow>
        getint bo data = Inr (PInt (sint (hd data)), drop 1 data)) \<and>
     (sint (hd data) = - 128 \<and> 3 \<le> length data \<longrightarrow>
        getint bo data = Inr (unpack_item bo Fmt_H [data ! 1, data ! 2], drop 3 data) \<and>
        (\<exists>v. unpack_item bo Fmt_H [data ! 1, data ! 2] = PInt v \<and> 0 \<le> v \<and> v < 65536 \<and>
           v = (case bo of LittleEndian \<Rightarrow> uint (data ! 1) + 256 * uint (data ! 2)
                         | BigEndian \<Rightarrow> 256 * uint (data ! 1) + uint (data ! 2)))) \<and>
     (sint (hd data) = - 128 \<and> length data < 3 \<longrightarrow> getint bo data = Inl StructError)"
proof (cases data)
  case Nil
  assume "data \<noteq> []"
  with Nil show ?thesis by simp
next
  case (Cons b rest)
  show ?thesis
  proof (cases "sint b = - 128")
    case False
    with Cons show ?thesis by (simp add: getint_Cons)
  next
    case True
    show ?thesis
    proof (cases "length rest < 2")
      case short: True
      with Cons True show ?thesis by (simp add: getint_Cons)
    next
      case False
      then obtain x y rest' where rest: "rest = x # y # rest'"
        by (cases rest; cases "tl rest") auto
      have "uint x < 256" "uint y < 256" "0 \<le> uint x" "0 \<le> uint y"
        using uint_lt2p [of x] uint_lt2p [of y] by simp_all
      with Cons True rest show ?thesis
        by (cases bo) (simp_all add: getint_Cons)
    qed
  qed
qed

theorem getint_sentinel_escape_witness:
  "getint LittleEndian [5, 9] = Inr (PInt 5, [9]) \<and>
   getint LittleEndian [0x80, 0x2C, 0x01, 7] = Inr (PInt 300, [7]) \<and>
   getint BigEndian [0x80, 0x2C, 0x01, 7] = Inr (PInt 11265, [7]) \<and>
   getint LittleEndian [0x80, 0x2C] = Inl StructError"
  using getint_sentinel_escape [of "[5, 9]" LittleEndian]
    getint_sentinel_escape [of "[0x80, 0x2C, 0x01, 7]" LittleEndian]
    getint_sentinel_escape [of "[0x80, 0x2C, 0x01, 7]" BigEndian]
    getint_sentinel_escape [of "[0x80, 0x2C]" LittleEndian]
  by simp

text \<open>
  C2. The name list loop stops when the remaining buffer is the single zero byte. On the
  empty buffer it does not stop: \<^verbatim>\<open>b"" != b"\x00"\<close> holds, \<^verbatim>\<open>getstring\<close> returns the empty
  string and leaves the buffer empty, and the loop appends empty names for ever. So the
  query never returns on a datagram whose name list lacks the closing zero byte, such as
  \<open>cut_server_info\<close>. The loop of \<^verbatim>\<open>get_playerstats\<close> does test for the empty buffer.
\<close>

theorem namelist_loop_empty_buffer_diverges:
  "namelist_loop bo [] playerlist = None \<and>
   namelist_loop bo [0x41, 0x00] playerlist = None \<and>
   get_server_info_and_namelist LittleEndian [cut_server_info] = None"
proof -
  have a: "namelist_loop bo [0x41, 0x00] playerlist = None" for bo playerlist
    by (subst namelist_loop.simps)
       (simp add: getstring_def getstring_loop_Cons namelist_loop_Nil)
  have "get_server_info_and_namelist LittleEndian [cut_server_info] = None"
    by (simp add: get_server_info_and_namelist_def cut_server_info_def and_then_def
          unpack_helper_bb unpack_helper_bbb getint_Cons getstring_def getstring_loop_Cons
          getstring_loop_Nil resolve_mastermode_def a)
  with a show ?thesis by (simp add: namelist_loop_Nil)
qed

text \<open>
  C3. On the record of Alice the decoder returns sixteen fields with the values of the
  datagram, and the ip string \<^verbatim>\<open>10.0.0.0\<close>. The shot damage 300 is decoded and then left
  out of the dictionary that is returned: there is no key \<^verbatim>\<open>shotdamage\<close>.
\<close>

theorem read_player_data_alice_lacks_shotdamage:
  "read_player_data LittleEndian alice_record = Inr alice_dict \<and>
   map_of alice_dict ''name'' = Some (PStr ''Alice'') \<and>
   map_of alice_dict ''ip'' = Some (PStr ''10.0.0.0'') \<and>
   map_of alice_dict ''damage'' = Some (PInt 120) \<and>
   map_of alice_dict ''shotdamage'' = None"
  by (simp add: read_alice_record) (simp add: alice_dict_def)

text \<open>
  C4. A record datagram of 20 bytes or more that breaks off inside a field raises
  \<^verbatim>\<open>struct.error\<close> in \<^verbatim>\<open>read_player_data\<close>, and \<^verbatim>\<open>get_playerstats\<close> catches nothing: the
  query fails as a whole, also when the record before was good. Only a datagram of fewer
  than 20 bytes is dropped and the roster kept.
\<close>

theorem get_playerstats_fails_on_truncated_record:
  "get_playerstats LittleEndian [header_2_5, alice_record, truncated_record] = Inl StructError \<and>
   get_playerstats LittleEndian [header_2_5, alice_record, short_record] = Inr [alice_dict]"
  by (simp add: roster_eval)

text \<open>
  C5 as amended. When \<^verbatim>\<open>get_playerstats\<close> returns, the transport delivered a header
  datagram and at least one record datagram for each client number of the header; each of
  these records was decoded without an exception; the result is the list of the decoded
  dictionaries that have a name other than the empty string, in the order of arrival; and
  a decoded dictionary is left out exactly when it is the empty dictionary (a datagram of
  fewer than 20 bytes) or its name is empty. The result holds the records only.
\<close>

theorem get_playerstats_finalize:
  "get_playerstats bo incoming = Inr players_stats \<Longrightarrow>
     \<exists>hdr recs ids dicts.
       incoming = hdr # recs \<and>
       read_client_number_list bo (take 4096 hdr) = Inr ids \<and>
       length ids \<le> length recs \<and>
       map (\<lambda>d. read_player_data bo (take 65535 d)) (take (length ids) recs) = map Inr dicts \<and>
       players_stats = filter has_name dicts \<and>
       (\<forall>d \<in> set dicts. has_name d \<longleftrightarrow> d \<noteq> [] \<and> map_of d ''name'' \<noteq> Some (PStr []))"
proof -
  assume a: "get_playerstats bo incoming = Inr players_stats"
  then obtain hdr recs where inc: "incoming = hdr # recs"
    by (cases incoming) (simp_all add: get_playerstats_def and_then_def)
  from a inc obtain ids where ids: "read_client_number_list bo (take 4096 hdr) = Inr ids"
    by (cases "read_client_number_list bo (take 4096 hdr)")
       (simp_all add: get_playerstats_def and_then_def)
  from a inc ids have "collect_records bo ids recs [] = Inr players_stats"
    by (simp add: get_playerstats_def and_then_def)
  from collect_records_completed [OF this] obtain dicts where
    len: "length ids \<le> length recs" and
    m: "map (\<lambda>d. read_player_data bo (take 65535 d)) (take (length ids) recs) = map Inr dicts" and
    st: "players_stats = filter has_name dicts"
    by auto
  have "has_name d \<longleftrightarrow> d \<noteq> [] \<and> map_of d ''name'' \<noteq> Some (PStr [])" if "d \<in> set dicts" for d
  proof -
    from that have "Inr d \<in> set (map Inr dicts :: (error + pydict) list)" by simp
    with m obtain x where "read_player_data bo x = Inr d"
      by (metis (no_types, lifting) imageE list.set_map)
    then show ?thesis by (rule has_name_iff)
  qed
  with inc ids len m st show ?thesis by blast
qed

theorem get_playerstats_finalize_witness:
  "get_playerstats LittleEndian [header_2_5, short_record, alice_record] = Inr [alice_dict] \<and>
   (\<exists>hdr recs ids dicts.
       [header_2_5, short_record, alice_record] = hdr # recs \<and>
       read_client_number_list LittleEndian (take 4096 hdr) = Inr ids \<and>
       length ids \<le> length recs \<and>
       map (\<lambda>d. read_player_data LittleEndian (take 65535 d)) (take (length ids) recs)
         = map Inr dicts \<and>
       [alice_dict] = filter has_name dicts \<and>
       (\<forall>d \<in> set dicts. has_name d \<longleftrightarrow> d \<noteq> [] \<and> map_of d ''name'' \<noteq> Some (PStr [])))"
  using get_playerstats_finalize [OF playerstats_short] playerstats_short
  by simp

text \<open>
  C5 as stated fails: the headers \<open>header_2_5\<close> and \<open>header_3_7\<close> list different client
  numbers, and with the same two record datagrams the two queries return the same value,
  the two records. The list of expected client numbers is no part of what is returned.
\<close>

theorem get_playerstats_omits_client_numbers:
  "read_client_number_list LittleEndian header_2_5 = Inr [PInt 2, PInt 5] \<and>
   read_client_number_list LittleEndian header_3_7 = Inr [PInt 3, PInt 7] \<and>
   get_playerstats LittleEndian [header_2_5, alice_record, alice_record]
     = Inr [alice_dict, alice_dict] \<and>
   get_playerstats LittleEndian [header_3_7, alice_record, alice_record]
     = Inr [alice_dict, alice_dict]"
  by (simp add: read_header_2_5 read_header_3_7 playerstats_2_5 playerstats_3_7)

text \<open>
  C6. The mode pair \<open>(a, b)\<close> at the head of the buffer decides the mode, and every pair
  has exactly one outcome. When \<open>a\<close> is -128, two more bytes are taken and the mode is
  \<^verbatim>\<open>match\<close> (a \<^verbatim>\<open>struct.error\<close> when the two bytes are not there); the pairs (0, 1) and
  (1, 1) give \<^verbatim>\<open>open\<close>; (64, 1) and (65, 1) give \<^verbatim>\<open>private\<close>; every other pair is returned
  as it is, and nothing but the pair is consumed.
\<close>

theorem resolve_mastermode_table:
  "resolve_mastermode bo (a # b # rest) =
     (if sint a = - 128 then
        (if 2 \<le> length rest then Inr (PStr ''match'', drop 2 rest) else Inl StructError)
      else if (sint a, sint b) = (0, 1) \<or> (sint a, sint b) = (1, 1)
        then Inr (PStr ''open'', rest)
      else if (sint a, sint b) = (64, 1) \<or> (sint a, sint b) = (65, 1)
        then Inr (PStr ''private'', rest)
      else Inr (PTuple [PInt (sint a), PInt (sint b)], rest))"
  by (simp add: resolve_mastermode_def unpack_helper_bb and_then_def)

theorem resolve_mastermode_table_witness:
  "resolve_mastermode LittleEndian [0x80, 0x01, 0x02, 0x03, 0x04] = Inr (PStr ''match'', [0x04]) \<and>
   resolve_mastermode LittleEndian [0x00, 0x01, 0x09] = Inr (PStr ''open'', [0x09]) \<and>
   resolve_mastermode LittleEndian [0x01, 0x01, 0x09] = Inr (PStr ''open'', [0x09]) \<and>
   resolve_mastermode LittleEndian [0x40, 0x01, 0x09] = Inr (PStr ''private'', [0x09]) \<and>
   resolve_mastermode LittleEndian [0x41, 0x01, 0x09] = Inr (PStr ''private'', [0x09]) \<and>
   resolve_mastermode LittleEndian [0x07, 0x01, 0x09] = Inr (PTuple [PInt 7, PInt 1], [0x09])"
  using resolve_mastermode_table [of LittleEndian "0x80" "0x01" "[0x02, 0x03, 0x04]"]
    resolve_mastermode_table [of LittleEndian "0x00" "0x01" "[0x09]"]
    resolve_mastermode_table [of LittleEndian "0x01" "0x01" "[0x09]"]
    resolve_mastermode_table [of LittleEndian "0x40" "0x01" "[0x09]"]
    resolve_mastermode_table [of LittleEndian "0x41" "0x01" "[0x09]"]
    resolve_mastermode_table [of LittleEndian "0x07" "0x01" "[0x09]"]
  by simp

text \<open>
  C7. \<^verbatim>\<open>getstring\<close> decodes the bytes one at a time, each with \<^verbatim>\<open>char.decode("utf-8")\<close>, and
  a byte from \<^verbatim>\<open>0x80\<close> on is never a UTF-8 sequence by itself. So a buffer with a zero
  byte and such a byte before it raises \<^verbatim>\<open>UnicodeDecodeError\<close> and does not stop at the
  zero byte, and a buffer without a zero byte that holds the UTF-8 form of one letter
  (\<^verbatim>\<open>C3 A9\<close>) raises it too and yields no text. On bytes below \<^verbatim>\<open>0x80\<close> the decoding is
  as the claim says (lemma \<open>getstring_ascii_text\<close>).
\<close>

theorem getstring_non_ascii_raises:
  "(0 :: byte) \<in> set [0xC3, 0x00, 0x41] \<and>
   getstring LittleEndian [0xC3, 0x00, 0x41] = Inl UnicodeDecodeError \<and>
   (0 :: byte) \<notin> set [0xC3, 0xA9] \<and>
   getstring LittleEndian [0xC3, 0xA9] = Inl UnicodeDecodeError \<and>
   getstring BigEndian [0xC3, 0xA9] = Inl UnicodeDecodeError"
  by (simp add: getstring_def getstring_loop_Cons)

text \<open>
  C8. On a buffer of fewer than 20 bytes \<^verbatim>\<open>read_player_data\<close> returns the empty
  dictionary. It is a value, not an exception, and no byte of the buffer is read: the
  length test comes before the first \<^verbatim>\<open>unpack_helper\<close>.
\<close>

theorem read_player_data_short:
  "length player_data < 20 \<Longrightarrow> read_player_data bo player_data = Inr []"
  by (simp add: read_player_data_def)

theorem read_player_data_short_witness:
  "length short_record < 20 \<and> read_player_data LittleEndian short_record = Inr [] \<and>
   read_player_data BigEndian [] = Inr []"
  using read_player_data_short [of short_record LittleEndian]
    read_player_data_short [of "[]" BigEndian]
  by (simp add: short_record_def)

text \<open>
  C9. \<^verbatim>\<open>getstring\<close> returns a result exactly when every byte before the first zero byte
  (every byte, when there is none) is below \<^verbatim>\<open>0x80\<close>. When one of these bytes is
  \<^verbatim>\<open>0x80\<close> or more, the call raises \<^verbatim>\<open>UnicodeDecodeError\<close>.
\<close>

theorem getstring_succeeds_iff_ascii:
  "((\<exists>r. getstring bo data = Inr r) \<longleftrightarrow>
      (\<forall>b \<in> set (takeWhile (\<lambda>b. b \<noteq> 0) data). b < 0x80)) \<and>
   ((\<exists>b \<in> set (takeWhile (\<lambda>b. b \<noteq> 0) data). 0x80 \<le> b) \<longrightarrow>
      getstring bo data = Inl UnicodeDecodeError)"
  using getstring_loop_success_iff [of bo "[]" data] getstring_loop_error [of bo "[]" data]
  by (cases "getstring_loop bo [] data") (auto simp: getstring_def)

theorem getstring_succeeds_iff_ascii_witness:
  "(\<exists>r. getstring LittleEndian [0x41, 0x00, 0xC3] = Inr r) \<and>
   (\<nexists>r. getstring LittleEndian [0x41, 0xC3, 0x00] = Inr r) \<and>
   getstring LittleEndian [0x41, 0xC3, 0x00] = Inl UnicodeDecodeError"
  using getstring_succeeds_iff_ascii [of LittleEndian "[0x41, 0x00, 0xC3]"]
    getstring_succeeds_iff_ascii [of LittleEndian "[0x41, 0xC3, 0x00]"]
  by simp

text \<open>
  C10. The length test does not make the decoding safe: the 20 bytes of
  \<open>truncated_record\<close> end in the escape byte of an integer, and \<^verbatim>\<open>read_player_data\<close> raises
  \<^verbatim>\<open>struct.error\<close> on them, which is neither a record nor the empty dictionary. The empty
  dictionary is returned exactly for the buffers of fewer than 20 bytes.
\<close>

theorem read_player_data_precheck_not_sufficient:
  "(\<exists>d. 20 \<le> length d \<and> read_player_data bo d = Inl StructError) \<and>
   (read_player_data bo player_data = Inr [] \<longleftrightarrow> length player_data < 20)"
proof
  have "20 \<le> length truncated_record" by (simp add: truncated_record_def)
  then show "\<exists>d. 20 \<le> length d \<and> read_player_data bo d = Inl StructError"
    using read_truncated_record by blast
next
  show "read_player_data bo player_data = Inr [] \<longleftrightarrow> length player_data < 20"
    using read_player_data_long [of player_data bo]
    by (auto simp: read_player_data_def)
qed

theorem read_player_data_precheck_not_sufficient_witness:
  "\<not> length truncated_record < 20 \<and>
   read_player_data LittleEndian truncated_record \<noteq> Inr [] \<and>
   read_player_data LittleEndian short_record = Inr []"
  using read_player_data_precheck_not_sufficient [of LittleEndian truncated_record]
    read_player_data_precheck_not_sufficient [of LittleEndian short_record]
  by (simp add: truncated_record_def short_record_def)

end
